theory Spec2Isabelle
  imports Complex_Main
begin

section \<open>Data model\<close>

text \<open>
  The two baselevel handlers of terrainbento work on a landlab model grid. The grid owns
  the per-node arrays (\<open>grid.at_node[name]\<close>) and the per-node boundary status
  (\<open>grid.status_at_node\<close>, 0 for a core node). The handlers keep references to the grid
  and to its \<open>topographic__elevation\<close> array (\<open>self.z\<close>) and write into those arrays
  in place. The model passes the grid explicitly: every operation takes the grid and
  returns the grid it leaves behind. \<open>self.z\<close> is read as the array registered under
  \<open>topographic__elevation\<close>; distinct field names are distinct arrays.

  Python floats are modelled as reals, so rounding is not part of the model. Where numpy
  would produce \<open>nan\<close> or \<open>inf\<close> instead of raising (the mean over an empty selection,
  a scaling factor or a slope with denominator zero) the model has no such value, and the
  theorems below exclude those inputs by a hypothesis.

  Node ids are the positions landlab numbers the nodes with, from 0, so a node id is a
  natural number; an id that is not a position of an array raises IndexError.
\<close>

datatype error = ValueError | NameError | UnboundLocalError | IndexError | KeyError | TypeError

record grid =
  at_node :: "string \<rightharpoonup> real list"
  status_at_node :: "nat list"

definition topographic__elevation :: string where
  "topographic__elevation = ''topographic__elevation''"

definition bedrock__elevation :: string where
  "bedrock__elevation = ''bedrock__elevation''"

definition set_field :: "string \<Rightarrow> real list \<Rightarrow> grid \<Rightarrow> grid" where
  "set_field name a g = g\<lparr>at_node := (at_node g)(name \<mapsto> a)\<rparr>"

text \<open>
  The file system as the constructors see it: \<open>os.path.exists(path)\<close> holds when the path
  is in the domain of the map; \<open>np.loadtxt(path, skiprows=1, delimiter=',')\<close> either
  parses the rows after the header, each row a (time, elevation change) pair, or raises.
\<close>

datatype lowering_file = Table "(real \<times> real) list" | Garbled

type_synonym filesystem = "string \<rightharpoonup> lowering_file"

definition loadtxt :: "lowering_file \<Rightarrow> error + (real \<times> real) list" where
  "loadtxt f = (case f of Garbled \<Rightarrow> Inl ValueError | Table rows \<Rightarrow> Inr rows)"

subsection \<open>scipy's interp1d with its default arguments\<close>

text \<open>
  \<open>interp1d(x, y)\<close> sorts the samples by \<open>x\<close> (a stable sort) and keeps them; calling
  the object checks the bounds (\<open>bounds_error\<close> is on by default, so a time outside
  \<open>[x[0], x[-1]]\<close> raises ValueError) and then interpolates linearly between the two
  neighbours found by \<open>searchsorted\<close>, clipped to \<open>1 .. len(x) - 1\<close>.
\<close>

type_synonym interp1d = "(real \<times> real) list"

definition interp1d_init :: "real list \<Rightarrow> real list \<Rightarrow> interp1d" where
  "interp1d_init x y = sort_key fst (zip x y)"

definition searchsorted :: "real list \<Rightarrow> real \<Rightarrow> nat" where
  "searchsorted x v = length (takeWhile (\<lambda>a. a < v) x)"

definition interp1d_call :: "interp1d \<Rightarrow> real \<Rightarrow> error + real" where
  "interp1d_call f x_new =
     (let x = map fst f; y = map snd f in
      if x = [] then Inl ValueError
      else if x_new < hd x \<or> last x < x_new then Inl ValueError
      else
        let hi = min (max (searchsorted x x_new) 1) (length x - 1);
            lo = hi - 1;
            slope = (y ! hi - y ! lo) / (x ! hi - x ! lo)
        in Inr (slope * (x_new - x ! lo) + y ! lo))"

section \<open>SingleNodeBaselevelHandler\<close>

text \<open>
  The attributes shared by both handlers. \<open>self.z\<close> and \<open>self._grid\<close> (\<open>self.grid\<close>)
  are references into the grid and are not copied into the record.
\<close>

record handler =
  model_time :: real
  lowering_rate :: "real option"
  outlet_elevation_obj :: "interp1d option"

record single_node_handler = handler +
  outlet_node :: nat

text \<open>
  \<open>SingleNodeBaselevelHandler.__init__\<close>. The result is the exception raised or the new
  handler, together with the grid after the call.
\<close>

definition SingleNode_init ::
  "filesystem \<Rightarrow> grid \<Rightarrow> nat \<Rightarrow> real option \<Rightarrow> string option \<Rightarrow> real option
     \<Rightarrow> (error + single_node_handler) \<times> grid" where
  "SingleNode_init fs grid outlet rate path model_end_elevation =
     (case at_node grid topographic__elevation of
        None \<Rightarrow> (Inl KeyError, grid)
      | Some z \<Rightarrow>
         (case (path, rate) of
            (None, None) \<Rightarrow> (Inl ValueError, grid)
          | (Some p, None) \<Rightarrow>
             (case fs p of
                None \<Rightarrow> (Inl ValueError, grid)
              | Some contents \<Rightarrow>
                 if length z \<le> outlet then (Inl IndexError, grid)
                 else
                   let model_start_elevation = z ! outlet in
                   (case loadtxt contents of
                      Inl e \<Rightarrow> (Inl e, grid)
                    | Inr elev_change_df \<Rightarrow>
                       if length elev_change_df < 2 then (Inl IndexError, grid)
                       else
                         let time = map fst elev_change_df;
                             elev_change = map snd elev_change_df;
                             scaling_factor =
                               (case model_end_elevation of
                                  None \<Rightarrow> 1
                                | Some e \<Rightarrow>
                                   \<bar>model_start_elevation - e\<bar>
                                     / \<bar>hd elev_change - last elev_change\<bar>);
                             outlet_elevation =
                               map (\<lambda>c. scaling_factor * c + model_start_elevation)
                                 elev_change
                         in (Inr \<lparr>model_time = 0,
                                  lowering_rate = None,
                                  outlet_elevation_obj =
                                    Some (interp1d_init time outlet_elevation),
                                  outlet_node = outlet\<rparr>, grid)))
          | (None, Some r) \<Rightarrow>
             (Inr \<lparr>model_time = 0, lowering_rate = Some r,
                   outlet_elevation_obj = None, outlet_node = outlet\<rparr>, grid)
          | (Some p, Some r) \<Rightarrow> (Inl ValueError, grid)))"

text \<open>
  \<open>SingleNodeBaselevelHandler.run_one_step\<close>. The result is the exception raised, if
  any, with the handler and the grid as the call leaves them. An augmented assignment
  \<open>a[i] += e\<close> reads \<open>a[i]\<close> first (IndexError when \<open>i\<close> is out of range), then
  evaluates \<open>e\<close> (TypeError when the rate is \<open>None\<close>), then stores. A handler exists
  only on a grid that has the elevation field; on a grid without it the model answers
  KeyError, the error of the lookup that bound \<open>self.z\<close>.
\<close>

definition SingleNode_run_one_step ::
  "single_node_handler \<Rightarrow> grid \<Rightarrow> real
     \<Rightarrow> error option \<times> single_node_handler \<times> grid" where
  "SingleNode_run_one_step h g dt =
     (case at_node g topographic__elevation of
        None \<Rightarrow> (Some KeyError, h, g)
      | Some z \<Rightarrow>
         (case outlet_elevation_obj h of
            None \<Rightarrow>
              if length z \<le> outlet_node h then (Some IndexError, h, g)
              else
                (case lowering_rate h of
                   None \<Rightarrow> (Some TypeError, h, g)
                 | Some r \<Rightarrow>
                    let g1 = set_field topographic__elevation
                               (z[outlet_node h := z ! outlet_node h + r * dt]) g
                    in (case at_node g bedrock__elevation of
                          None \<Rightarrow> (None, h\<lparr>model_time := model_time h + dt\<rparr>, g1)
                        | Some b \<Rightarrow>
                           if length b \<le> outlet_node h then (Some IndexError, h, g1)
                           else
                             (None, h\<lparr>model_time := model_time h + dt\<rparr>,
                              set_field bedrock__elevation
                                (b[outlet_node h := b ! outlet_node h + r * dt]) g1)))
          | Some f \<Rightarrow>
              if length z \<le> outlet_node h then (Some IndexError, h, g)
              else
                (case interp1d_call f (model_time h) of
                   Inl e \<Rightarrow> (Some e, h, g)
                 | Inr target \<Rightarrow>
                    let topo_change = z ! outlet_node h - target in
                    (case at_node g bedrock__elevation of
                       None \<Rightarrow>
                         (None, h\<lparr>model_time := model_time h + dt\<rparr>,
                          set_field topographic__elevation
                            (z[outlet_node h := z ! outlet_node h - topo_change]) g)
                     | Some b \<Rightarrow>
                        if length b \<le> outlet_node h then (Some IndexError, h, g)
                        else
                          (None, h\<lparr>model_time := model_time h + dt\<rparr>,
                           set_field topographic__elevation
                             (z[outlet_node h := z ! outlet_node h - topo_change])
                             (set_field bedrock__elevation
                                (b[outlet_node h := b ! outlet_node h - topo_change]) g))))))"

text \<open>
  The callers' loop (\<open>for _ in range(n): bh.run_one_step(dt)\<close>): one call per entry of
  the list, stopping at the first exception.
\<close>

fun SingleNode_run_steps ::
  "single_node_handler \<Rightarrow> grid \<Rightarrow> real list
     \<Rightarrow> error option \<times> single_node_handler \<times> grid" where
  "SingleNode_run_steps h g [] = (None, h, g)"
| "SingleNode_run_steps h g (dt # dts) =
     (case SingleNode_run_one_step h g dt of
        (None, h', g') \<Rightarrow> SingleNode_run_steps h' g' dts
      | (Some e, h', g') \<Rightarrow> (Some e, h', g'))"

section \<open>ClosedNodeBaselevelHandler\<close>

text \<open>
  numpy's boolean indexing: \<open>a[mask]\<close> selects the entries where the mask is true,
  \<open>a[mask] += c\<close> adds a scalar to them and \<open>a[mask] -= d\<close> subtracts a vector with one
  entry per selected position. The mask must be as long as the array, which the callers
  below check before indexing (numpy raises IndexError otherwise).
\<close>

definition boolean_index :: "real list \<Rightarrow> bool list \<Rightarrow> real list" where
  "boolean_index a sel = map fst (filter snd (zip a sel))"

definition boolean_index_add :: "real list \<Rightarrow> bool list \<Rightarrow> real \<Rightarrow> real list" where
  "boolean_index_add a sel c = map (\<lambda>(x, m). if m then x + c else x) (zip a sel)"

fun boolean_index_sub :: "real list \<Rightarrow> bool list \<Rightarrow> real list \<Rightarrow> real list" where
  "boolean_index_sub (x # xs) (True # ms) (d # ds) = (x - d) # boolean_index_sub xs ms ds"
| "boolean_index_sub (x # xs) (False # ms) ds = x # boolean_index_sub xs ms ds"
| "boolean_index_sub xs ms ds = xs"

definition mean :: "real list \<Rightarrow> real" where
  "mean xs = sum_list xs / real (length xs)"

record closed_node_handler = handler +
  modify_closed_nodes :: bool
  nodes_to_lower :: "bool list"
  prefactor :: real

text \<open>
  \<open>ClosedNodeBaselevelHandler.__init__\<close>. The local variable \<open>model_start_elevation\<close> is
  assigned only in the branch that has a \<open>model_end_elevation\<close>; it is modelled as an
  option, \<open>None\<close> while it is unbound, and reading it unbound raises UnboundLocalError.
\<close>

definition ClosedNode_init ::
  "filesystem \<Rightarrow> grid \<Rightarrow> bool \<Rightarrow> real option \<Rightarrow> string option \<Rightarrow> real option
     \<Rightarrow> (error + closed_node_handler) \<times> grid" where
  "ClosedNode_init fs grid modify rate path model_end_elevation =
     (case at_node grid topographic__elevation of
        None \<Rightarrow> (Inl KeyError, grid)
      | Some z \<Rightarrow>
         let nodes = (if modify then map (\<lambda>s. s \<noteq> 0) (status_at_node grid)
                      else map (\<lambda>s. s = 0) (status_at_node grid));
             pre = (if modify then 1 else - 1)
         in
         (case (path, rate) of
            (None, None) \<Rightarrow> (Inl ValueError, grid)
          | (Some p, None) \<Rightarrow>
             (case fs p of
                None \<Rightarrow> (Inl ValueError, grid)
              | Some contents \<Rightarrow>
                 (case loadtxt contents of
                    Inl e \<Rightarrow> (Inl e, grid)
                  | Inr elev_change_df \<Rightarrow>
                     if length elev_change_df < 2 then (Inl IndexError, grid)
                     else
                       let time = map fst elev_change_df;
                           elev_change = map snd elev_change_df
                       in
                       (case (case model_end_elevation of
                                None \<Rightarrow> Inr (1, None)
                              | Some e \<Rightarrow>
                                 if length nodes \<noteq> length z then Inl IndexError
                                 else
                                   let start = mean (boolean_index z nodes) in
                                   Inr (\<bar>start - e\<bar> / \<bar>hd elev_change - last elev_change\<bar>,
                                        Some start)) of
                          Inl e \<Rightarrow> (Inl e, grid)
                        | Inr (scaling_factor, model_start_elevation) \<Rightarrow>
                           (case model_start_elevation of
                              None \<Rightarrow> (Inl UnboundLocalError, grid)
                            | Some start \<Rightarrow>
                               let outlet_elevation =
                                     map (\<lambda>c. scaling_factor * c + start) elev_change
                               in (Inr \<lparr>model_time = 0,
                                        lowering_rate = None,
                                        outlet_elevation_obj =
                                          Some (interp1d_init time outlet_elevation),
                                        modify_closed_nodes = modify,
                                        nodes_to_lower = nodes,
                                        prefactor = pre\<rparr>, grid)))))
          | (None, Some r) \<Rightarrow>
             (Inr \<lparr>model_time = 0, lowering_rate = Some r, outlet_elevation_obj = None,
                   modify_closed_nodes = modify, nodes_to_lower = nodes,
                   prefactor = pre\<rparr>, grid)
          | (Some p, Some r) \<Rightarrow> (Inl ValueError, grid)))"

text \<open>
  \<open>ClosedNodeBaselevelHandler.run_one_step\<close>. The constant-rate branch indexes
  \<open>self.z\<close> with the bare name \<open>nodes_to_lower\<close>, not with the attribute
  \<open>self.nodes_to_lower\<close>. The first argument is what that bare name resolves to in the
  scopes around the method: \<open>None\<close> when no scope binds it, and then Python raises
  NameError at the subscript, after \<open>model_time\<close> has been incremented and before
  anything is written.
\<close>

definition ClosedNode_run_one_step_in ::
  "bool list option \<Rightarrow> closed_node_handler \<Rightarrow> grid \<Rightarrow> real
     \<Rightarrow> error option \<times> closed_node_handler \<times> grid" where
  "ClosedNode_run_one_step_in bare_nodes_to_lower h g dt =
     (let h1 = h\<lparr>model_time := model_time h + dt\<rparr> in
      case at_node g topographic__elevation of
        None \<Rightarrow> (Some KeyError, h1, g)
      | Some z \<Rightarrow>
         (case outlet_elevation_obj h1 of
            None \<Rightarrow>
              (case bare_nodes_to_lower of
                 None \<Rightarrow> (Some NameError, h1, g)
               | Some idx \<Rightarrow>
                  if length idx \<noteq> length z then (Some IndexError, h1, g)
                  else
                    (case lowering_rate h1 of
                       None \<Rightarrow> (Some TypeError, h1, g)
                     | Some r \<Rightarrow>
                        let g1 = set_field topographic__elevation
                                   (boolean_index_add z idx (prefactor h1 * r * dt)) g
                        in (case at_node g bedrock__elevation of
                              None \<Rightarrow> (None, h1, g1)
                            | Some b \<Rightarrow>
                               if length (nodes_to_lower h1) \<noteq> length b
                               then (Some IndexError, h1, g1)
                               else
                                 (None, h1,
                                  set_field bedrock__elevation
                                    (boolean_index_add b (nodes_to_lower h1)
                                       (prefactor h1 * r * dt)) g1))))
          | Some f \<Rightarrow>
              if length (nodes_to_lower h1) \<noteq> length z then (Some IndexError, h1, g)
              else
                (case interp1d_call f (model_time h1) of
                   Inl e \<Rightarrow> (Some e, h1, g)
                 | Inr target \<Rightarrow>
                    let topo_change =
                          map (\<lambda>zi. prefactor h1 * (zi - target))
                            (boolean_index z (nodes_to_lower h1))
                    in
                    (case at_node g bedrock__elevation of
                       None \<Rightarrow>
                         (None, h1,
                          set_field topographic__elevation
                            (boolean_index_sub z (nodes_to_lower h1) topo_change) g)
                     | Some b \<Rightarrow>
                        if length (nodes_to_lower h1) \<noteq> length b
                        then (Some IndexError, h1, g)
                        else
                          (None, h1,
                           set_field topographic__elevation
                             (boolean_index_sub z (nodes_to_lower h1) topo_change)
                             (set_field bedrock__elevation
                                (boolean_index_sub b (nodes_to_lower h1) topo_change)
                                g))))))"

text \<open>
  The module binds only \<open>os\<close>, \<open>np\<close>, \<open>interp1d\<close> and the class itself, and
  \<open>run_one_step\<close> has the locals \<open>self\<close>, \<open>dt\<close> and \<open>topo_change\<close>: nothing binds
  \<open>nodes_to_lower\<close>.
\<close>

definition ClosedNode_run_one_step ::
  "closed_node_handler \<Rightarrow> grid \<Rightarrow> real \<Rightarrow> error option \<times> closed_node_handler \<times> grid" where
  "ClosedNode_run_one_step = ClosedNode_run_one_step_in None"


section \<open>Vocabulary of the properties\<close>

text \<open>
  The value a grid field holds at a node, if the field exists and has that node.
\<close>

definition field_at :: "grid \<Rightarrow> string \<Rightarrow> nat \<Rightarrow> real option" where
  "field_at g name i =
     (case at_node g name of
        None \<Rightarrow> None
      | Some a \<Rightarrow> if i < length a then Some (a ! i) else None)"

text \<open>
  The thickness of the cover at a node: elevation minus bedrock, where both fields have
  the node.
\<close>

definition cover_at :: "grid \<Rightarrow> nat \<Rightarrow> real option" where
  "cover_at g i =
     (case (field_at g topographic__elevation i, field_at g bedrock__elevation i) of
        (Some z, Some b) \<Rightarrow> Some (z - b)
      | _ \<Rightarrow> None)"

text \<open>
  A node of the grid: an index into the elevation array and, when the grid has a bedrock
  field, into that array too (landlab gives every at-node field one entry per node).
\<close>

definition is_node :: "grid \<Rightarrow> nat \<Rightarrow> bool" where
  "is_node g n =
     (case at_node g topographic__elevation of
        None \<Rightarrow> False
      | Some z \<Rightarrow>
         n < length z \<and>
         (case at_node g bedrock__elevation of None \<Rightarrow> True | Some b \<Rightarrow> n < length b))"

text \<open>A node selection that fits the grid: one flag per entry of each array.\<close>

definition fits_grid :: "grid \<Rightarrow> bool list \<Rightarrow> bool" where
  "fits_grid g sel =
     (case at_node g topographic__elevation of
        None \<Rightarrow> False
      | Some z \<Rightarrow>
         length sel = length z \<and>
         (case at_node g bedrock__elevation of
            None \<Rightarrow> True
          | Some b \<Rightarrow> length sel = length b))"

text \<open>
  The time range on which an interpolation object answers, and a run of steps whose
  evaluation times (the elapsed time before each step) all lie in it.
\<close>

definition within_bounds :: "interp1d \<Rightarrow> real \<Rightarrow> bool" where
  "within_bounds f t = (f \<noteq> [] \<and> fst (hd f) \<le> t \<and> t \<le> fst (last f))"

fun steps_within_bounds :: "interp1d \<Rightarrow> real \<Rightarrow> real list \<Rightarrow> bool" where
  "steps_within_bounds f t [] = True"
| "steps_within_bounds f t (dt # dts) =
     (within_bounds f t \<and> steps_within_bounds f (t + dt) dts)"

text \<open>
  The interpolant both constructors build from the rows of the lowering file, a scaling
  factor and a start elevation: \<open>interp1d(time, scaling_factor * elev_change + start)\<close>.
\<close>

definition history_interpolant :: "(real \<times> real) list \<Rightarrow> real \<Rightarrow> real \<Rightarrow> interp1d" where
  "history_interpolant rows scaling_factor start =
     interp1d_init (map fst rows) (map (\<lambda>c. scaling_factor * c + start) (map snd rows))"

section \<open>The scenarios of the docstrings and the tests\<close>

text \<open>
  The 5 by 5 raster grid of the docstrings, elevation zero everywhere, every perimeter
  node closed (status 4) and every interior node a core node (status 0).
\<close>

definition perimeter_closed_grid :: grid where
  "perimeter_closed_grid =
     \<lparr>at_node = [topographic__elevation \<mapsto> replicate 25 0],
      status_at_node = [4, 4, 4, 4, 4,
                        4, 0, 0, 0, 4,
                        4, 0, 0, 0, 4,
                        4, 0, 0, 0, 4,
                        4, 4, 4, 4, 4]\<rparr>"

definition perimeter_nodes :: "bool list" where
  "perimeter_nodes = map (\<lambda>s. s \<noteq> 0) (status_at_node perimeter_closed_grid)"

definition interior_nodes :: "bool list" where
  "interior_nodes = map (\<lambda>s. s = 0) (status_at_node perimeter_closed_grid)"

text \<open>
  A small grid with a bedrock field, elevation one and bedrock zero, as in the tests of
  the single-node handler.
\<close>

definition bedrock_grid :: grid where
  "bedrock_grid =
     \<lparr>at_node = [topographic__elevation \<mapsto> [1, 1, 1, 1],
                 bedrock__elevation \<mapsto> [0, 0, 0, 0]],
      status_at_node = [1, 0, 0, 4]\<rparr>"

text \<open>
  A lowering history of three rows: no change at time 0, ten down at time 10, forty down
  at time 20.
\<close>

definition history_rows :: "(real \<times> real) list" where
  "history_rows = [(0, 0), (10, - 10), (20, - 40)]"

definition history_fs :: filesystem where
  "history_fs = [''outlet_history.txt'' \<mapsto> Table history_rows]"


section \<open>Basic facts\<close>

lemma field_names_distinct [simp]:
  "topographic__elevation \<noteq> bedrock__elevation"
  "bedrock__elevation \<noteq> topographic__elevation"
  by (simp_all add: topographic__elevation_def bedrock__elevation_def)

lemma at_node_set_field [simp]:
  "at_node (set_field name a g) = (at_node g)(name \<mapsto> a)"
  by (simp add: set_field_def)

lemma status_set_field [simp]:
  "status_at_node (set_field name a g) = status_at_node g"
  by (simp add: set_field_def)

lemma field_at_set_field:
  "field_at (set_field name a g) name' i =
     (if name' = name then (if i < length a then Some (a ! i) else None)
      else field_at g name' i)"
  by (simp add: field_at_def)

lemma SingleNode_step_frame:
  assumes "SingleNode_run_one_step h g dt = (e, h', g')"
  shows "g' = g\<lparr>at_node := at_node g'\<rparr>"
    and "name \<noteq> topographic__elevation \<and> name \<noteq> bedrock__elevation
           \<Longrightarrow> at_node g' name = at_node g name"
    and "i \<noteq> outlet_node h \<Longrightarrow> field_at g' name i = field_at g name i"
    and "map_option length (at_node g' name) = map_option length (at_node g name)"
    and "h' = h\<lparr>model_time := model_time h'\<rparr>"
  using assms
  by (auto simp: SingleNode_run_one_step_def Let_def set_field_def field_at_def
           split: option.splits if_splits sum.splits)

section \<open>Construction\<close>

text \<open>
  Claim C2. Either constructor, given both a \<open>lowering_rate\<close> and a
  \<open>lowering_file_path\<close>, or given neither, raises, and the grid is as it was before the
  call: no elevation field has been written. The exception is the ValueError of the
  source whenever the grid has its elevation field; on a grid without that field the
  lookup \<open>grid.at_node['topographic__elevation']\<close> has already failed.
\<close>

theorem both_or_neither_raises:
  "SingleNode_init fs g n (Some r) (Some p) e
     = (Inl (if at_node g topographic__elevation = None then KeyError else ValueError), g)
   \<and> SingleNode_init fs g n None None e
     = (Inl (if at_node g topographic__elevation = None then KeyError else ValueError), g)
   \<and> ClosedNode_init fs g m (Some r) (Some p) e
     = (Inl (if at_node g topographic__elevation = None then KeyError else ValueError), g)
   \<and> ClosedNode_init fs g m None None e
     = (Inl (if at_node g topographic__elevation = None then KeyError else ValueError), g)"
  by (simp add: SingleNode_init_def ClosedNode_init_def split: option.splits)

lemma SingleNode_init_no_file:
  "fs p = None \<or> fs p = Some Garbled
     \<Longrightarrow> \<exists>err. SingleNode_init fs g n None (Some p) e = (Inl err, g)"
  by (auto simp: SingleNode_init_def loadtxt_def split: option.splits)

lemma ClosedNode_init_no_file:
  "fs p = None \<or> fs p = Some Garbled
     \<Longrightarrow> \<exists>err. ClosedNode_init fs g m None (Some p) e = (Inl err, g)"
  by (auto simp: ClosedNode_init_def loadtxt_def Let_def split: option.splits)

text \<open>
  Claim C7. Either constructor, given no \<open>lowering_rate\<close> and a \<open>lowering_file_path\<close>
  that does not exist, or that exists and cannot be read as a table, raises at
  construction and leaves the grid as it was.
\<close>

theorem missing_file_raises:
  assumes "fs p = None \<or> fs p = Some Garbled"
  shows "\<exists>e1 e2. SingleNode_init fs g n None (Some p) e = (Inl e1, g)
               \<and> ClosedNode_init fs g m None (Some p) e = (Inl e2, g)"
proof -
  obtain e1 where "SingleNode_init fs g n None (Some p) e = (Inl e1, g)"
    using SingleNode_init_no_file [where fs = fs and p = p, OF assms] by blast
  moreover obtain e2 where "ClosedNode_init fs g m None (Some p) e = (Inl e2, g)"
    using ClosedNode_init_no_file [where fs = fs and p = p, OF assms] by blast
  ultimately show ?thesis by blast
qed

theorem missing_file_raises_witness:
  "\<exists>e1 e2. SingleNode_init Map.empty perimeter_closed_grid 0 None (Some ''foo.txt'') None
                 = (Inl e1, perimeter_closed_grid)
         \<and> ClosedNode_init Map.empty perimeter_closed_grid True None (Some ''foo.txt'') None
                 = (Inl e2, perimeter_closed_grid)"
  using missing_file_raises [where fs = Map.empty and p = "''foo.txt''"
                               and g = perimeter_closed_grid and n = 0 and e = None
                               and m = True]
  by simp

text \<open>
  Claim C6. The claim expects that the multi-node handler can be built from a readable
  lowering file without a \<open>model_end_elevation\<close>. The constructor does not get there: the
  start elevation is computed only in the branch that rescales, and the statement that
  builds the outlet elevations reads it unbound. On the history file of three rows the
  constructor raises UnboundLocalError, whichever side of the grid is driven.
\<close>

theorem closed_node_unscaled_history_raises:
  "ClosedNode_init history_fs perimeter_closed_grid True None (Some ''outlet_history.txt'') None
     = (Inl UnboundLocalError, perimeter_closed_grid)
   \<and> ClosedNode_init history_fs perimeter_closed_grid False None (Some ''outlet_history.txt'') None
     = (Inl UnboundLocalError, perimeter_closed_grid)"
  by (simp add: ClosedNode_init_def history_fs_def history_rows_def loadtxt_def
        perimeter_closed_grid_def)

text \<open>
  The same holds for every readable file of at least two rows and every grid with an
  elevation field.
\<close>

lemma ClosedNode_init_unscaled_raises:
  assumes "fs p = Some (Table rows)" and "2 \<le> length rows"
    and "at_node g topographic__elevation = Some z"
  shows "ClosedNode_init fs g m None (Some p) None = (Inl UnboundLocalError, g)"
  using assms by (simp add: ClosedNode_init_def loadtxt_def Let_def)

section \<open>The multi-node handler at a constant rate\<close>

text \<open>
  Claim C1. The docstring of the multi-node handler expects one call
  \<open>run_one_step(10.0)\<close> at \<open>lowering_rate = -0.1\<close> to lower the closed perimeter by 1
  (with \<open>modify_closed_nodes = True\<close>) or to raise the interior by 1 (with \<open>False\<close>). In
  the source the call raises NameError in both configurations: the elapsed time has
  become 10 and every elevation is still 0.
\<close>

theorem closed_node_constant_rate_raises:
  "ClosedNode_init Map.empty perimeter_closed_grid True (Some (- 1 / 10)) None None
     = (Inr \<lparr>model_time = 0, lowering_rate = Some (- 1 / 10), outlet_elevation_obj = None,
             modify_closed_nodes = True, nodes_to_lower = perimeter_nodes, prefactor = 1\<rparr>,
        perimeter_closed_grid)
   \<and> ClosedNode_run_one_step
        \<lparr>model_time = 0, lowering_rate = Some (- 1 / 10), outlet_elevation_obj = None,
         modify_closed_nodes = True, nodes_to_lower = perimeter_nodes, prefactor = 1\<rparr>
        perimeter_closed_grid 10
     = (Some NameError,
        \<lparr>model_time = 10, lowering_rate = Some (- 1 / 10), outlet_elevation_obj = None,
         modify_closed_nodes = True, nodes_to_lower = perimeter_nodes, prefactor = 1\<rparr>,
        perimeter_closed_grid)
   \<and> ClosedNode_init Map.empty perimeter_closed_grid False (Some (- 1 / 10)) None None
     = (Inr \<lparr>model_time = 0, lowering_rate = Some (- 1 / 10), outlet_elevation_obj = None,
             modify_closed_nodes = False, nodes_to_lower = interior_nodes, prefactor = - 1\<rparr>,
        perimeter_closed_grid)
   \<and> ClosedNode_run_one_step
        \<lparr>model_time = 0, lowering_rate = Some (- 1 / 10), outlet_elevation_obj = None,
         modify_closed_nodes = False, nodes_to_lower = interior_nodes, prefactor = - 1\<rparr>
        perimeter_closed_grid 10
     = (Some NameError,
        \<lparr>model_time = 10, lowering_rate = Some (- 1 / 10), outlet_elevation_obj = None,
         modify_closed_nodes = False, nodes_to_lower = interior_nodes, prefactor = - 1\<rparr>,
        perimeter_closed_grid)
   \<and> field_at perimeter_closed_grid topographic__elevation 0 = Some 0
   \<and> field_at perimeter_closed_grid topographic__elevation 6 = Some 0"
  by (simp add: ClosedNode_init_def ClosedNode_run_one_step_def ClosedNode_run_one_step_in_def
        perimeter_nodes_def interior_nodes_def perimeter_closed_grid_def field_at_def)

text \<open>
  Every step of a multi-node handler in constant-rate mode ends this way.
\<close>

lemma ClosedNode_constant_step_raises:
  assumes "outlet_elevation_obj h = None" and "at_node g topographic__elevation = Some z"
  shows "ClosedNode_run_one_step h g dt
           = (Some NameError, h\<lparr>model_time := model_time h + dt\<rparr>, g)"
  using assms by (simp add: ClosedNode_run_one_step_def ClosedNode_run_one_step_in_def)

text \<open>
  Had the subscript been \<open>self.nodes_to_lower\<close>, as it is two lines further down for the
  bedrock field, the call would have produced the grid the docstring prints.
\<close>

lemma closed_node_docstring_intended:
  "ClosedNode_run_one_step_in (Some perimeter_nodes)
        \<lparr>model_time = 0, lowering_rate = Some (- 1 / 10), outlet_elevation_obj = None,
         modify_closed_nodes = True, nodes_to_lower = perimeter_nodes, prefactor = 1\<rparr>
        perimeter_closed_grid 10
     = (None,
        \<lparr>model_time = 10, lowering_rate = Some (- 1 / 10), outlet_elevation_obj = None,
         modify_closed_nodes = True, nodes_to_lower = perimeter_nodes, prefactor = 1\<rparr>,
        set_field topographic__elevation
          [- 1, - 1, - 1, - 1, - 1,
           - 1, 0, 0, 0, - 1,
           - 1, 0, 0, 0, - 1,
           - 1, 0, 0, 0, - 1,
           - 1, - 1, - 1, - 1, - 1] perimeter_closed_grid)"
  by (simp add: ClosedNode_run_one_step_in_def perimeter_nodes_def perimeter_closed_grid_def
        boolean_index_add_def set_field_def eval_nat_numeral)


section \<open>What a step of the single-node handler may touch\<close>

text \<open>
  Claim C10. Whatever the handler and whatever \<open>dt\<close>, a call of the single-node
  \<open>run_one_step\<close> changes nothing of the grid but its at-node arrays, leaves every
  array other than the elevation and the bedrock as it was, leaves every entry of every
  array at a node other than the outlet as it was, keeps the length of every array, and
  changes nothing of the handler but its elapsed time. This holds for the state the call
  leaves behind whether it returns or raises.
\<close>

theorem single_node_frame:
  assumes "SingleNode_run_one_step h g dt = (e, h', g')"
  shows "g' = g\<lparr>at_node := at_node g'\<rparr>
       \<and> h' = h\<lparr>model_time := model_time h'\<rparr>
       \<and> (\<forall>name. name \<noteq> topographic__elevation \<and> name \<noteq> bedrock__elevation
              \<longrightarrow> at_node g' name = at_node g name)
       \<and> (\<forall>name i. i \<noteq> outlet_node h \<longrightarrow> field_at g' name i = field_at g name i)
       \<and> (\<forall>name. map_option length (at_node g' name) = map_option length (at_node g name))"
  using SingleNode_step_frame [OF assms] by blast

theorem single_node_frame_witness:
  "SingleNode_run_one_step
      \<lparr>model_time = 0, lowering_rate = Some (- 1 / 10), outlet_elevation_obj = None,
       outlet_node = 0\<rparr> bedrock_grid 10
     = (None,
        \<lparr>model_time = 10, lowering_rate = Some (- 1 / 10), outlet_elevation_obj = None,
         outlet_node = 0\<rparr>,
        set_field bedrock__elevation [- 1, 0, 0, 0]
          (set_field topographic__elevation [0, 1, 1, 1] bedrock_grid))
   \<and> field_at (set_field bedrock__elevation [- 1, 0, 0, 0]
          (set_field topographic__elevation [0, 1, 1, 1] bedrock_grid))
        topographic__elevation 1 = field_at bedrock_grid topographic__elevation 1
   \<and> field_at (set_field bedrock__elevation [- 1, 0, 0, 0]
          (set_field topographic__elevation [0, 1, 1, 1] bedrock_grid))
        bedrock__elevation 3 = field_at bedrock_grid bedrock__elevation 3
   \<and> status_at_node (set_field bedrock__elevation [- 1, 0, 0, 0]
          (set_field topographic__elevation [0, 1, 1, 1] bedrock_grid)) = [1, 0, 0, 4]"
proof -
  let ?h = "\<lparr>model_time = 0, lowering_rate = Some (- 1 / 10), outlet_elevation_obj = None,
             outlet_node = 0\<rparr>"
  let ?h' = "\<lparr>model_time = 10, lowering_rate = Some (- 1 / 10), outlet_elevation_obj = None,
              outlet_node = 0\<rparr>"
  let ?g' = "set_field bedrock__elevation [- 1, 0, 0, 0]
               (set_field topographic__elevation [0, 1, 1, 1] bedrock_grid)"
  have step: "SingleNode_run_one_step ?h bedrock_grid 10 = (None, ?h', ?g')"
    by (simp add: SingleNode_run_one_step_def bedrock_grid_def set_field_def)
  have st: "status_at_node ?g' = [1, 0, 0, 4]"
    by (simp add: bedrock_grid_def)
  from single_node_frame [OF step] have
    "\<forall>name i. i \<noteq> outlet_node ?h \<longrightarrow> field_at ?g' name i = field_at bedrock_grid name i"
    by blast
  then have "field_at ?g' topographic__elevation 1 = field_at bedrock_grid topographic__elevation 1"
    and "field_at ?g' bedrock__elevation 3 = field_at bedrock_grid bedrock__elevation 3"
    by simp_all
  with step st show ?thesis by blast
qed

section \<open>Elevation and bedrock move together\<close>

lemma boolean_index_Cons:
  "boolean_index (x # xs) (m # ms) = (if m then x # boolean_index xs ms else boolean_index xs ms)"
  by (simp add: boolean_index_def)

lemma boolean_index_sub_map:
  assumes "length a = length sel" and "length sel = length z"
  shows "boolean_index_sub a sel (map f (boolean_index z sel))
           = map (\<lambda>(x, zi, m). if m then x - f zi else x) (zip a (zip z sel))"
  using assms
proof (induction a sel z rule: list_induct3)
  case Nil
  then show ?case by (simp add: boolean_index_def)
next
  case (Cons x xs m ms zi zs)
  then show ?case by (cases m) (simp_all add: boolean_index_Cons)
qed

lemma length_boolean_index_sub_map:
  assumes "length a = length sel" and "length sel = length z"
  shows "length (boolean_index_sub a sel (map f (boolean_index z sel))) = length a"
  using assms by (simp add: boolean_index_sub_map)

lemma nth_boolean_index_sub_map:
  assumes "length a = length sel" and "length sel = length z" and "i < length a"
  shows "boolean_index_sub a sel (map f (boolean_index z sel)) ! i
           = (if sel ! i then a ! i - f (z ! i) else a ! i)"
  using assms by (simp add: boolean_index_sub_map)

lemma SingleNode_step_cover:
  "cover_at (snd (snd (SingleNode_run_one_step h g dt))) i = cover_at g i"
  by (auto simp: SingleNode_run_one_step_def Let_def cover_at_def field_at_set_field
                 field_at_def nth_list_update
           split: option.splits sum.splits)

lemma ClosedNode_step_cover:
  "cover_at (snd (snd (ClosedNode_run_one_step h g dt))) i = cover_at g i"
  by (auto simp: ClosedNode_run_one_step_def ClosedNode_run_one_step_in_def Let_def cover_at_def
                 field_at_set_field field_at_def length_boolean_index_sub_map
                 nth_boolean_index_sub_map
           split: option.splits sum.splits)

text \<open>
  Claim C8. At every node, elevation minus bedrock is the same after a call of
  \<open>run_one_step\<close> as before it, for both handlers and in both modes: where the bedrock
  field exists, each call changes both fields by the same amount at each node. (In the
  constant-rate mode of the multi-node handler that amount is zero, because the call
  raises before it writes.)
\<close>

theorem cover_preserved_by_every_step:
  "cover_at (snd (snd (SingleNode_run_one_step hs g dt))) i = cover_at g i
   \<and> cover_at (snd (snd (ClosedNode_run_one_step hc g dt))) i = cover_at g i"
  by (simp add: SingleNode_step_cover ClosedNode_step_cover)

section \<open>The single-node handler at a constant rate\<close>

lemma SingleNode_constant_step:
  assumes "outlet_elevation_obj h = None" and "lowering_rate h = Some r"
    and "is_node g (outlet_node h)"
  shows "\<exists>g'. SingleNode_run_one_step h g dt = (None, h\<lparr>model_time := model_time h + dt\<rparr>, g')
            \<and> is_node g' (outlet_node h)
            \<and> field_at g' topographic__elevation (outlet_node h)
                = map_option (\<lambda>v. v + r * dt) (field_at g topographic__elevation (outlet_node h))
            \<and> field_at g' bedrock__elevation (outlet_node h)
                = map_option (\<lambda>v. v + r * dt) (field_at g bedrock__elevation (outlet_node h))"
  using assms
  by (auto simp: SingleNode_run_one_step_def Let_def is_node_def field_at_def
           split: option.splits)

lemma SingleNode_constant_steps:
  assumes "outlet_elevation_obj h = None" and "lowering_rate h = Some r"
    and "is_node g (outlet_node h)"
  shows "\<exists>g'. SingleNode_run_steps h g dts
                 = (None, h\<lparr>model_time := model_time h + sum_list dts\<rparr>, g')
            \<and> field_at g' topographic__elevation (outlet_node h)
                = map_option (\<lambda>v. v + r * sum_list dts)
                    (field_at g topographic__elevation (outlet_node h))
            \<and> field_at g' bedrock__elevation (outlet_node h)
                = map_option (\<lambda>v. v + r * sum_list dts)
                    (field_at g bedrock__elevation (outlet_node h))"
  using assms
proof (induction dts arbitrary: h g)
  case Nil
  then show ?case by (simp add: option.map_ident)
next
  case (Cons dt dts)
  let ?h1 = "h\<lparr>model_time := model_time h + dt\<rparr>"
  from SingleNode_constant_step [OF Cons.prems, of dt]
  obtain g1 where step: "SingleNode_run_one_step h g dt = (None, ?h1, g1)"
    and node: "is_node g1 (outlet_node h)"
    and z1: "field_at g1 topographic__elevation (outlet_node h)
               = map_option (\<lambda>v. v + r * dt) (field_at g topographic__elevation (outlet_node h))"
    and b1: "field_at g1 bedrock__elevation (outlet_node h)
               = map_option (\<lambda>v. v + r * dt) (field_at g bedrock__elevation (outlet_node h))"
    by blast
  have "outlet_elevation_obj ?h1 = None" "lowering_rate ?h1 = Some r"
    "is_node g1 (outlet_node ?h1)"
    using Cons.prems node by simp_all
  from Cons.IH [OF this]
  obtain g' where rest: "SingleNode_run_steps ?h1 g1 dts
                           = (None, ?h1\<lparr>model_time := model_time ?h1 + sum_list dts\<rparr>, g')"
    and z': "field_at g' topographic__elevation (outlet_node h)
               = map_option (\<lambda>v. v + r * sum_list dts)
                   (field_at g1 topographic__elevation (outlet_node h))"
    and b': "field_at g' bedrock__elevation (outlet_node h)
               = map_option (\<lambda>v. v + r * sum_list dts)
                   (field_at g1 bedrock__elevation (outlet_node h))"
    by auto
  have run: "SingleNode_run_steps h g (dt # dts)
               = (None, h\<lparr>model_time := model_time h + sum_list (dt # dts)\<rparr>, g')"
    using step rest by (simp add: add.assoc)
  have comp: "\<And>x. map_option (\<lambda>v. v + r * sum_list dts) (map_option (\<lambda>v. v + r * dt) x)
                 = map_option (\<lambda>v. v + r * sum_list (dt # dts)) x"
    by (simp add: option.map_comp comp_def distrib_left add.assoc)
  show ?case using run z' b' z1 b1 comp by auto
qed

lemma SingleNode_init_constant:
  "at_node g topographic__elevation \<noteq> None \<Longrightarrow>
   SingleNode_init fs g n (Some r) None e
     = (Inr \<lparr>model_time = 0, lowering_rate = Some r, outlet_elevation_obj = None,
             outlet_node = n\<rparr>, g)"
  by (auto simp: SingleNode_init_def)

text \<open>
  Claim C3. A single-node handler built with a \<open>lowering_rate\<close> on a grid that has the
  outlet node runs any sequence of steps without raising; afterwards its elapsed time is
  the sum of the steps, the elevation of the outlet is its initial value plus the rate
  times that sum, and the bedrock of the outlet, if the grid has a bedrock field, has
  received the same total. With rate \<open>-0.1\<close> and one step of 10 this is a drop of 1.
\<close>

theorem single_node_constant_rate_total:
  assumes "is_node g n"
  shows "\<exists>h h' g'.
           SingleNode_init fs g n (Some r) None e = (Inr h, g)
         \<and> SingleNode_run_steps h g dts = (None, h', g')
         \<and> model_time h' = sum_list dts
         \<and> field_at g topographic__elevation n \<noteq> None
         \<and> field_at g' topographic__elevation n
             = map_option (\<lambda>v. v + r * sum_list dts) (field_at g topographic__elevation n)
         \<and> field_at g' bedrock__elevation n
             = map_option (\<lambda>v. v + r * sum_list dts) (field_at g bedrock__elevation n)"
proof -
  let ?h = "\<lparr>model_time = 0, lowering_rate = Some r, outlet_elevation_obj = None,
             outlet_node = n\<rparr>"
  have z: "at_node g topographic__elevation \<noteq> None"
    and zn: "field_at g topographic__elevation n \<noteq> None"
    using assms by (auto simp: is_node_def field_at_def split: option.splits)
  have init: "SingleNode_init fs g n (Some r) None e = (Inr ?h, g)"
    using SingleNode_init_constant [OF z] .
  have "outlet_elevation_obj ?h = None" "lowering_rate ?h = Some r" "is_node g (outlet_node ?h)"
    using assms by simp_all
  from SingleNode_constant_steps [OF this, of dts] init zn
  show ?thesis by auto
qed

theorem single_node_constant_rate_total_witness:
  "is_node bedrock_grid 3
   \<and> (\<exists>h h' g'.
           SingleNode_init Map.empty bedrock_grid 3 (Some (- 1 / 10)) None None
             = (Inr h, bedrock_grid)
         \<and> SingleNode_run_steps h bedrock_grid [10, 10, 10] = (None, h', g')
         \<and> model_time h' = 30
         \<and> field_at g' topographic__elevation 3 = Some (- 2)
         \<and> field_at g' bedrock__elevation 3 = Some (- 3))"
proof -
  have n: "is_node bedrock_grid 3"
    by (simp add: is_node_def bedrock_grid_def)
  have z: "field_at bedrock_grid topographic__elevation 3 = Some 1"
    and b: "field_at bedrock_grid bedrock__elevation 3 = Some 0"
    by (simp_all add: field_at_def bedrock_grid_def)
  from single_node_constant_rate_total [OF n, of Map.empty "- 1 / 10" None "[10, 10, 10]"]
  show ?thesis using n z b by simp
qed

text \<open>
  The docstring's scenario: outlet node 0 of the 5 by 5 grid, rate \<open>-0.1\<close>, one step of
  10. Node 0 ends at \<open>-1\<close> and its neighbour stays at 0.
\<close>

lemma single_node_docstring_example:
  "SingleNode_run_one_step
      \<lparr>model_time = 0, lowering_rate = Some (- 1 / 10), outlet_elevation_obj = None,
       outlet_node = 0\<rparr> perimeter_closed_grid 10
     = (None,
        \<lparr>model_time = 10, lowering_rate = Some (- 1 / 10), outlet_elevation_obj = None,
         outlet_node = 0\<rparr>,
        set_field topographic__elevation (- 1 # replicate 24 0) perimeter_closed_grid)"
  by (simp add: SingleNode_run_one_step_def perimeter_closed_grid_def set_field_def
        eval_nat_numeral)

section \<open>The single-node handler following a lowering history\<close>

lemma within_bounds_call:
  assumes "within_bounds f t"
  shows "\<exists>v. interp1d_call f t = Inr v"
  using assms
  by (auto simp: within_bounds_def interp1d_call_def Let_def hd_map last_map)

lemma SingleNode_history_step:
  assumes "outlet_elevation_obj h = Some f" and "is_node g (outlet_node h)"
    and "interp1d_call f (model_time h) = Inr v"
  shows "\<exists>g'. SingleNode_run_one_step h g dt = (None, h\<lparr>model_time := model_time h + dt\<rparr>, g')
            \<and> is_node g' (outlet_node h)
            \<and> field_at g' topographic__elevation (outlet_node h) = Some v"
  using assms
  by (auto simp: SingleNode_run_one_step_def Let_def is_node_def field_at_def
           split: option.splits)

lemma SingleNode_history_steps:
  assumes "outlet_elevation_obj h = Some f" and "is_node g (outlet_node h)"
    and "steps_within_bounds f (model_time h) (dts @ [dt])"
  shows "\<exists>g' v. SingleNode_run_steps h g (dts @ [dt])
                   = (None, h\<lparr>model_time := model_time h + sum_list dts + dt\<rparr>, g')
              \<and> interp1d_call f (model_time h + sum_list dts) = Inr v
              \<and> field_at g' topographic__elevation (outlet_node h) = Some v"
  using assms
proof (induction dts arbitrary: h g)
  case Nil
  then have "within_bounds f (model_time h)" by simp
  then obtain v where v: "interp1d_call f (model_time h) = Inr v"
    using within_bounds_call by blast
  from SingleNode_history_step [OF Nil.prems(1,2) v, of dt] v
  show ?case by auto
next
  case (Cons d dts)
  let ?h1 = "h\<lparr>model_time := model_time h + d\<rparr>"
  from Cons.prems(3) have now: "within_bounds f (model_time h)"
    and later: "steps_within_bounds f (model_time h + d) (dts @ [dt])"
    by simp_all
  from now obtain v0 where v0: "interp1d_call f (model_time h) = Inr v0"
    using within_bounds_call by blast
  from SingleNode_history_step [OF Cons.prems(1,2) v0, of d]
  obtain g1 where step: "SingleNode_run_one_step h g d = (None, ?h1, g1)"
    and node: "is_node g1 (outlet_node h)"
    by blast
  have "outlet_elevation_obj ?h1 = Some f" "is_node g1 (outlet_node ?h1)"
    "steps_within_bounds f (model_time ?h1) (dts @ [dt])"
    using Cons.prems(1) node later by simp_all
  from Cons.IH [OF this]
  obtain g' v where rest: "SingleNode_run_steps ?h1 g1 (dts @ [dt])
        = (None, ?h1\<lparr>model_time := model_time ?h1 + sum_list dts + dt\<rparr>, g')"
    and v: "interp1d_call f (model_time ?h1 + sum_list dts) = Inr v"
    and z': "field_at g' topographic__elevation (outlet_node h) = Some v"
    by auto
  have "SingleNode_run_steps h g ((d # dts) @ [dt])
          = (None, h\<lparr>model_time := model_time h + sum_list (d # dts) + dt\<rparr>, g')"
    using step rest by (simp add: add.assoc)
  moreover have "interp1d_call f (model_time h + sum_list (d # dts)) = Inr v"
    using v by (simp add: add.assoc)
  ultimately show ?case using z' by blast
qed

lemma SingleNode_init_history:
  assumes "fs p = Some (Table rows)" and "2 \<le> length rows"
    and "field_at g topographic__elevation n = Some z0"
  shows "SingleNode_init fs g n None (Some p) e
     = (Inr \<lparr>model_time = 0, lowering_rate = None,
             outlet_elevation_obj = Some (history_interpolant rows
               (case e of None \<Rightarrow> 1
                | Some e' \<Rightarrow> \<bar>z0 - e'\<bar> / \<bar>snd (hd rows) - snd (last rows)\<bar>) z0),
             outlet_node = n\<rparr>, g)"
proof -
  from assms(2) have ne: "rows \<noteq> []" by auto
  show ?thesis
    using assms ne
    by (auto simp: SingleNode_init_def loadtxt_def Let_def history_interpolant_def field_at_def
                   hd_map last_map
             split: option.splits if_splits)
qed

lemma history_rows_interpolant:
  "history_interpolant history_rows 1 0 = [(0, 0), (10, - 10), (20, - 40)]"
  "history_interpolant history_rows 1 1 = [(0, 1), (10, - 9), (20, - 39)]"
  "history_interpolant history_rows 2 0 = [(0, 0), (10, - 20), (20, - 80)]"
  by (simp_all add: history_interpolant_def history_rows_def interp1d_init_def)

lemma is_node_perimeter_closed_grid: "is_node perimeter_closed_grid 0"
  by (simp add: is_node_def perimeter_closed_grid_def)

lemma field_at_perimeter_closed_grid:
  "field_at perimeter_closed_grid topographic__elevation 0 = Some 0"
  by (simp add: field_at_def perimeter_closed_grid_def)

text \<open>
  Claim C4, as stated, fails. The claim has each step move the outlet onto the
  interpolant at the new elapsed time, so that the elevation equals the interpolant at the
  elapsed time reached. The source evaluates the interpolant at \<open>self.model_time\<close> before
  incrementing it (the class docstring says that time is incremented at the end of
  \<open>run_one_step\<close>). On the three-row history, one step of 10 from a flat grid leaves the
  outlet at 0 with elapsed time 10, where the interpolant is \<open>-10\<close>.
\<close>

theorem single_node_history_at_next_time_counterexample:
  "SingleNode_init history_fs perimeter_closed_grid 0 None (Some ''outlet_history.txt'') None
     = (Inr \<lparr>model_time = 0, lowering_rate = None,
             outlet_elevation_obj = Some [(0, 0), (10, - 10), (20, - 40)], outlet_node = 0\<rparr>,
        perimeter_closed_grid)
   \<and> fst (SingleNode_run_one_step
             \<lparr>model_time = 0, lowering_rate = None,
              outlet_elevation_obj = Some [(0, 0), (10, - 10), (20, - 40)], outlet_node = 0\<rparr>
             perimeter_closed_grid 10) = None
   \<and> model_time (fst (snd (SingleNode_run_one_step
             \<lparr>model_time = 0, lowering_rate = None,
              outlet_elevation_obj = Some [(0, 0), (10, - 10), (20, - 40)], outlet_node = 0\<rparr>
             perimeter_closed_grid 10))) = 10
   \<and> field_at (snd (snd (SingleNode_run_one_step
             \<lparr>model_time = 0, lowering_rate = None,
              outlet_elevation_obj = Some [(0, 0), (10, - 10), (20, - 40)], outlet_node = 0\<rparr>
             perimeter_closed_grid 10))) topographic__elevation 0 = Some 0
   \<and> interp1d_call [(0, 0), (10, - 10), (20, - 40)] 10 = Inr (- 10)"
  by (simp add: SingleNode_init_def SingleNode_run_one_step_def history_fs_def loadtxt_def
        history_rows_def interp1d_init_def interp1d_call_def searchsorted_def
        perimeter_closed_grid_def field_at_def set_field_def Let_def)

text \<open>
  Claim C4, amended. Built from a readable file of at least two rows and no
  \<open>model_end_elevation\<close>, the handler holds the interpolant of the file's change values
  offset by the outlet's initial elevation (scaling factor 1). Each step from elapsed time
  \<open>t\<close> sets the outlet's elevation to the interpolant at \<open>t\<close>, the time before the
  increment: after a run of steps, the last of length \<open>dt\<close>, elapsed time is the sum of
  all steps and the elevation of the outlet is the interpolant at that sum minus \<open>dt\<close>. The
  run returns normally when every evaluation time lies in the time range of the table.
  The times of the table are distinct, so that no slope has denominator zero.
\<close>

theorem single_node_history_lags_one_step:
  assumes "fs p = Some (Table rows)" and "2 \<le> length rows"
    and "is_node g n" and "field_at g topographic__elevation n = Some z0"
    and "steps_within_bounds (history_interpolant rows 1 z0) 0 (dts @ [dt])"
    and "distinct (map fst rows)"
  shows "\<exists>h h' g' v.
           SingleNode_init fs g n None (Some p) None = (Inr h, g)
         \<and> outlet_elevation_obj h = Some (history_interpolant rows 1 z0)
         \<and> SingleNode_run_steps h g (dts @ [dt]) = (None, h', g')
         \<and> model_time h' = sum_list dts + dt
         \<and> interp1d_call (history_interpolant rows 1 z0) (sum_list dts) = Inr v
         \<and> field_at g' topographic__elevation n = Some v"
proof -
  let ?f = "history_interpolant rows 1 z0"
  let ?h = "\<lparr>model_time = 0, lowering_rate = None, outlet_elevation_obj = Some ?f,
             outlet_node = n\<rparr>"
  have init: "SingleNode_init fs g n None (Some p) None = (Inr ?h, g)"
    using SingleNode_init_history [where fs = fs and p = p and e = None, OF assms(1,2,4)]
    by simp
  have "outlet_elevation_obj ?h = Some ?f" "is_node g (outlet_node ?h)"
    "steps_within_bounds ?f (model_time ?h) (dts @ [dt])"
    using assms(3,5) by simp_all
  from SingleNode_history_steps [OF this]
  obtain g' v where "SingleNode_run_steps ?h g (dts @ [dt])
                       = (None, ?h\<lparr>model_time := model_time ?h + sum_list dts + dt\<rparr>, g')"
    and "interp1d_call ?f (model_time ?h + sum_list dts) = Inr v"
    and "field_at g' topographic__elevation (outlet_node ?h) = Some v"
    by blast
  with init show ?thesis by auto
qed

theorem single_node_history_lags_one_step_witness:
  "\<exists>h h' g'.
       SingleNode_init history_fs perimeter_closed_grid 0 None (Some ''outlet_history.txt'') None
         = (Inr h, perimeter_closed_grid)
     \<and> SingleNode_run_steps h perimeter_closed_grid [10, 5] = (None, h', g')
     \<and> model_time h' = 15
     \<and> interp1d_call [(0, 0), (10, - 10), (20, - 40)] 10 = Inr (- 10)
     \<and> field_at g' topographic__elevation 0 = Some (- 10)"
proof -
  have tbl: "history_fs ''outlet_history.txt'' = Some (Table history_rows)"
    by (simp add: history_fs_def)
  have len: "2 \<le> length history_rows"
    by (simp add: history_rows_def)
  have bounds: "steps_within_bounds (history_interpolant history_rows 1 0) 0 ([10] @ [5])"
    by (simp add: history_rows_interpolant within_bounds_def)
  have dist: "distinct (map fst history_rows)"
    by (simp add: history_rows_def)
  have call: "interp1d_call [(0, 0), (10, - 10), (20, - 40)] 10 = Inr (- 10)"
    by (simp add: interp1d_call_def searchsorted_def)
  from single_node_history_lags_one_step
         [where fs = history_fs and p = "''outlet_history.txt''", OF tbl len
            is_node_perimeter_closed_grid field_at_perimeter_closed_grid bounds dist]
  show ?thesis
    using call by (auto simp: history_rows_interpolant)
qed

section \<open>Rescaling a lowering history to an end elevation\<close>

lemma searchsorted_last:
  assumes "sorted_wrt (<) x" and "x \<noteq> []"
  shows "searchsorted x (last x) = length x - 1"
proof -
  have split: "x = butlast x @ [last x]"
    using assms(2) by simp
  have below: "\<forall>a \<in> set (butlast x). a < last x"
  proof
    fix a assume "a \<in> set (butlast x)"
    then obtain i where i: "i < length (butlast x)" and a: "a = butlast x ! i"
      by (auto simp: in_set_conv_nth)
    then have "i < length x - 1" by simp
    moreover have "a = x ! i" using a i by (simp add: nth_butlast)
    moreover have "last x = x ! (length x - 1)" using assms(2) by (simp add: last_conv_nth)
    ultimately show "a < last x"
      using sorted_wrt_nth_less [OF assms(1), of i "length x - 1"] assms(2) by simp
  qed
  have "takeWhile (\<lambda>a. a < last x) (butlast x @ [last x]) = butlast x"
    using below by (simp add: takeWhile_append2)
  then have "takeWhile (\<lambda>a. a < last x) x = butlast x"
    using split by simp
  then show ?thesis by (simp add: searchsorted_def)
qed

lemma interp1d_call_last:
  assumes "sorted_wrt (<) (map fst f)" and "2 \<le> length f"
  shows "interp1d_call f (fst (last f)) = Inr (snd (last f))"
proof -
  let ?x = "map fst f" and ?y = "map snd f"
  let ?n = "length f"
  define xh xl yh yl where "xh = ?x ! (?n - 1)" and "xl = ?x ! (?n - 2)"
    and "yh = ?y ! (?n - 1)" and "yl = ?y ! (?n - 2)"
  from assms(2) have ne: "f \<noteq> []" by auto
  have lastx: "last ?x = fst (last f)"
    using ne by (simp add: last_map)
  have top: "fst (last f) = xh" "snd (last f) = yh"
    using ne by (simp_all add: last_conv_nth xh_def yh_def)
  have lt: "xl < xh"
    unfolding xl_def xh_def
    using sorted_wrt_nth_less [OF assms(1), of "?n - 2" "?n - 1"] assms(2) by simp
  have hd_le: "hd ?x \<le> last ?x"
  proof -
    have a: "?x ! 0 < ?x ! (?n - 1)"
      using sorted_wrt_nth_less [OF assms(1), of 0 "?n - 1"] assms(2) by simp
    have b: "hd ?x = ?x ! 0" using ne by (simp add: hd_conv_nth)
    have c: "last ?x = ?x ! (?n - 1)" using ne by (simp add: last_conv_nth)
    show ?thesis unfolding b c using a by (rule less_imp_le)
  qed
  have ss: "searchsorted ?x (fst (last f)) = ?n - 1"
    using searchsorted_last [OF assms(1)] ne lastx by simp
  have hi: "min (max (?n - 1) 1) (length ?x - 1) = ?n - 1"
    using assms(2) by simp
  have lo: "?n - 1 - 1 = ?n - 2" by simp
  have inb: "\<not> (fst (last f) < hd ?x \<or> last ?x < fst (last f))"
    using hd_le lastx by simp
  have val: "(yh - yl) / (xh - xl) * (xh - xl) + yl = yh"
    using lt by simp
  have "interp1d_call f (fst (last f))
          = Inr ((?y ! (?n - 1) - ?y ! (?n - 2)) / (?x ! (?n - 1) - ?x ! (?n - 2))
                   * (fst (last f) - ?x ! (?n - 2)) + ?y ! (?n - 2))"
    unfolding interp1d_call_def Let_def using ne inb ss hi lo by simp
  then have "interp1d_call f (fst (last f)) = Inr ((yh - yl) / (xh - xl) * (xh - xl) + yl)"
    unfolding top xh_def xl_def yh_def yl_def .
  then show ?thesis
    unfolding val top .
qed

lemma fst_scaled_rows:
  "map fst (map (\<lambda>(t, c). (t, sf * c + start)) rows) = map fst rows"
  by (induction rows) auto

lemma history_interpolant_sorted:
  assumes "sorted_wrt (<) (map fst rows)"
  shows "history_interpolant rows sf start = map (\<lambda>(t, c). (t, sf * c + start)) rows"
proof -
  let ?f = "map (\<lambda>(t, c). (t, sf * c + start)) rows"
  have zip: "zip (map fst rows) (map (\<lambda>c. sf * c + start) (map snd rows)) = ?f"
    by (induction rows) auto
  have "sorted (map fst rows)"
    using assms by (simp add: strict_sorted_iff)
  then have "sorted (map fst ?f)"
    unfolding fst_scaled_rows .
  then have "sort_key fst ?f = ?f"
    by (rule sort_key_id_if_sorted)
  then show ?thesis
    unfolding history_interpolant_def interp1d_init_def zip .
qed

lemma history_interpolant_last:
  assumes "sorted_wrt (<) (map fst rows)" and "2 \<le> length rows"
  shows "interp1d_call (history_interpolant rows sf start) (fst (last rows))
           = Inr (sf * snd (last rows) + start)"
proof -
  let ?f = "map (\<lambda>(t, c). (t, sf * c + start)) rows"
  from assms(2) have ne: "rows \<noteq> []" by auto
  have s: "sorted_wrt (<) (map fst ?f)"
    unfolding fst_scaled_rows by (rule assms(1))
  have l: "2 \<le> length ?f"
    using assms(2) by simp
  have ends: "fst (last ?f) = fst (last rows)" "snd (last ?f) = sf * snd (last rows) + start"
    using ne by (simp_all add: last_map case_prod_unfold)
  have "interp1d_call ?f (fst (last ?f)) = Inr (snd (last ?f))"
    using s l by (rule interp1d_call_last)
  then have "interp1d_call ?f (fst (last rows)) = Inr (sf * snd (last rows) + start)"
    unfolding ends .
  then show ?thesis
    unfolding history_interpolant_sorted [OF assms(1)] .
qed

lemma rescale_hits_target:
  fixes c e z0 :: real
  assumes "0 < c * (e - z0)"
  shows "\<bar>z0 - e\<bar> / \<bar>0 - c\<bar> * c + z0 = e"
proof -
  from assms consider "0 < c \<and> 0 < e - z0" | "c < 0 \<and> e - z0 < 0"
    by (auto simp: zero_less_mult_iff)
  then show ?thesis
  proof cases
    case 1
    then have "\<bar>z0 - e\<bar> = e - z0" "\<bar>0 - c\<bar> = c" "c \<noteq> 0" by simp_all
    then show ?thesis by simp
  next
    case 2
    then have "\<bar>z0 - e\<bar> = z0 - e" "\<bar>0 - c\<bar> = - c" "c \<noteq> 0" by simp_all
    then show ?thesis by simp
  qed
qed

text \<open>
  Claim C5, as stated, fails. With \<open>model_end_elevation = 40\<close> on a flat grid at 0 and
  the three-row history, which ends 40 below its start, the scaling factor is 1. When the
  elapsed time has reached the table's final time 20 the outlet is at \<open>-10\<close>, the
  interpolant one step earlier; one step later it is at \<open>-40\<close>. It never comes to 40: the
  absolute values in the scaling factor keep the direction of the file.
\<close>

theorem single_node_rescaled_history_counterexample:
  "SingleNode_init history_fs perimeter_closed_grid 0 None (Some ''outlet_history.txt'') (Some 40)
     = (Inr \<lparr>model_time = 0, lowering_rate = None,
             outlet_elevation_obj = Some [(0, 0), (10, - 10), (20, - 40)], outlet_node = 0\<rparr>,
        perimeter_closed_grid)
   \<and> fst (SingleNode_run_steps
             \<lparr>model_time = 0, lowering_rate = None,
              outlet_elevation_obj = Some [(0, 0), (10, - 10), (20, - 40)], outlet_node = 0\<rparr>
             perimeter_closed_grid [10, 10]) = None
   \<and> model_time (fst (snd (SingleNode_run_steps
             \<lparr>model_time = 0, lowering_rate = None,
              outlet_elevation_obj = Some [(0, 0), (10, - 10), (20, - 40)], outlet_node = 0\<rparr>
             perimeter_closed_grid [10, 10]))) = 20
   \<and> field_at (snd (snd (SingleNode_run_steps
             \<lparr>model_time = 0, lowering_rate = None,
              outlet_elevation_obj = Some [(0, 0), (10, - 10), (20, - 40)], outlet_node = 0\<rparr>
             perimeter_closed_grid [10, 10]))) topographic__elevation 0 = Some (- 10)
   \<and> field_at (snd (snd (SingleNode_run_steps
             \<lparr>model_time = 0, lowering_rate = None,
              outlet_elevation_obj = Some [(0, 0), (10, - 10), (20, - 40)], outlet_node = 0\<rparr>
             perimeter_closed_grid [10, 10, 10]))) topographic__elevation 0 = Some (- 40)"
  by (simp add: SingleNode_init_def SingleNode_run_one_step_def history_fs_def loadtxt_def
        history_rows_def interp1d_init_def interp1d_call_def searchsorted_def
        perimeter_closed_grid_def field_at_def set_field_def Let_def)

text \<open>
  Claim C5, amended. Built from a readable file of at least two rows with strictly
  increasing times and a \<open>model_end_elevation\<close> \<open>e\<close>, the handler holds the interpolant
  of the file's change values scaled by
  \<open>|start - e| / |change[0] - change[last]|\<close> and offset by the outlet's initial
  elevation. The step taken from the table's final time, that is the step after elapsed
  time has reached it, sets the outlet's elevation to \<open>e\<close>, provided the file's first
  change is 0 and its last change is nonzero with the sign of \<open>e - start\<close>.
\<close>

theorem single_node_rescaled_history_reaches_target:
  assumes "fs p = Some (Table rows)" and "2 \<le> length rows"
    and "sorted_wrt (<) (map fst rows)"
    and "is_node g n" and "field_at g topographic__elevation n = Some z0"
    and "sf = \<bar>z0 - e\<bar> / \<bar>snd (hd rows) - snd (last rows)\<bar>"
    and "steps_within_bounds (history_interpolant rows sf z0) 0 (dts @ [dt])"
    and "sum_list dts = fst (last rows)"
    and "snd (hd rows) = 0" and "0 < snd (last rows) * (e - z0)"
  shows "\<exists>h h' g'.
           SingleNode_init fs g n None (Some p) (Some e) = (Inr h, g)
         \<and> outlet_elevation_obj h = Some (history_interpolant rows sf z0)
         \<and> SingleNode_run_steps h g (dts @ [dt]) = (None, h', g')
         \<and> model_time h' = fst (last rows) + dt
         \<and> field_at g' topographic__elevation n = Some e"
proof -
  let ?f = "history_interpolant rows sf z0"
  let ?h = "\<lparr>model_time = 0, lowering_rate = None, outlet_elevation_obj = Some ?f,
             outlet_node = n\<rparr>"
  have init: "SingleNode_init fs g n None (Some p) (Some e) = (Inr ?h, g)"
    using SingleNode_init_history [where fs = fs and p = p and e = "Some e", OF assms(1,2,5)]
      assms(6) by simp
  have "outlet_elevation_obj ?h = Some ?f" "is_node g (outlet_node ?h)"
    "steps_within_bounds ?f (model_time ?h) (dts @ [dt])"
    using assms(4,7) by simp_all
  from SingleNode_history_steps [OF this]
  obtain g' v where run: "SingleNode_run_steps ?h g (dts @ [dt])
                       = (None, ?h\<lparr>model_time := model_time ?h + sum_list dts + dt\<rparr>, g')"
    and v: "interp1d_call ?f (model_time ?h + sum_list dts) = Inr v"
    and z': "field_at g' topographic__elevation (outlet_node ?h) = Some v"
    by blast
  have "interp1d_call ?f (fst (last rows)) = Inr (sf * snd (last rows) + z0)"
    using history_interpolant_last [OF assms(3,2)] .
  moreover have "sf * snd (last rows) + z0 = e"
    using rescale_hits_target [OF assms(10)] assms(6,9) by simp
  ultimately have "v = e"
    using v assms(8) by simp
  with init run z' assms(8) show ?thesis by auto
qed

theorem single_node_rescaled_history_reaches_target_witness:
  "\<exists>h h' g'.
       SingleNode_init history_fs perimeter_closed_grid 0 None (Some ''outlet_history.txt'')
           (Some (- 80))
         = (Inr h, perimeter_closed_grid)
     \<and> outlet_elevation_obj h = Some [(0, 0), (10, - 20), (20, - 80)]
     \<and> SingleNode_run_steps h perimeter_closed_grid [10, 10, 10] = (None, h', g')
     \<and> model_time h' = 30
     \<and> field_at g' topographic__elevation 0 = Some (- 80)"
proof -
  have tbl: "history_fs ''outlet_history.txt'' = Some (Table history_rows)"
    by (simp add: history_fs_def)
  have len: "2 \<le> length history_rows"
    and srt: "sorted_wrt (<) (map fst history_rows)"
    and sf: "(2::real) = \<bar>0 - (- 80)\<bar> / \<bar>snd (hd history_rows) - snd (last history_rows)\<bar>"
    and total: "sum_list [10, 10] = fst (last history_rows)"
    and c0: "snd (hd history_rows) = 0"
    and dir: "0 < snd (last history_rows) * (- 80 - 0)"
    by (simp_all add: history_rows_def)
  have bounds: "steps_within_bounds (history_interpolant history_rows 2 0) 0 ([10, 10] @ [10])"
    by (simp add: history_rows_interpolant within_bounds_def)
  have ends: "fst (last history_rows) = 20"
    by (simp add: history_rows_def)
  from single_node_rescaled_history_reaches_target
         [where fs = history_fs and p = "''outlet_history.txt''", OF tbl len srt
            is_node_perimeter_closed_grid field_at_perimeter_closed_grid sf bounds total c0 dir]
  show ?thesis
    by (auto simp: history_rows_interpolant ends)
qed

section \<open>When the elapsed time is incremented\<close>

lemma SingleNode_init_time:
  "fst (SingleNode_init fs g n rate path e) = Inr h \<Longrightarrow> model_time h = 0"
  by (auto simp: SingleNode_init_def Let_def
           split: option.splits if_splits sum.splits prod.splits)

lemma ClosedNode_init_time:
  "fst (ClosedNode_init fs g m rate path e) = Inr h \<Longrightarrow> model_time h = 0"
  by (auto simp: ClosedNode_init_def Let_def
           split: option.splits if_splits sum.splits prod.splits)

lemma SingleNode_step_time:
  "model_time (fst (snd (SingleNode_run_one_step h g dt)))
     = (if fst (SingleNode_run_one_step h g dt) = None then model_time h + dt
        else model_time h)"
  by (auto simp: SingleNode_run_one_step_def Let_def
           split: option.splits sum.splits)

lemma ClosedNode_step_time:
  "model_time (fst (snd (ClosedNode_run_one_step h g dt))) = model_time h + dt"
  by (auto simp: ClosedNode_run_one_step_def ClosedNode_run_one_step_in_def Let_def
           split: option.splits sum.splits)

lemma ClosedNode_history_step:
  assumes "outlet_elevation_obj h = Some f" and "fits_grid g (nodes_to_lower h)"
    and "interp1d_call f (model_time h + dt) = Inr v"
    and "field_at g topographic__elevation i = Some zi"
  shows "\<exists>g'. ClosedNode_run_one_step h g dt = (None, h\<lparr>model_time := model_time h + dt\<rparr>, g')
            \<and> field_at g' topographic__elevation i
                = Some (if nodes_to_lower h ! i then zi - prefactor h * (zi - v) else zi)"
  using assms
  by (auto simp: ClosedNode_run_one_step_def ClosedNode_run_one_step_in_def Let_def
                 fits_grid_def field_at_def length_boolean_index_sub_map
                 nth_boolean_index_sub_map
           split: option.splits if_splits)

text \<open>
  Claim C9. Both constructors start the elapsed time at 0. A call of the single-node
  \<open>run_one_step\<close> that returns has advanced the elapsed time by exactly \<open>dt\<close> (a call
  that raises has left it alone: the increment is the last statement), and in history mode
  it has moved the outlet onto the interpolant at the elapsed time before the increment.
  A call of the multi-node \<open>run_one_step\<close> has advanced the elapsed time by exactly
  \<open>dt\<close> in every case, the increment being its first statement, and in history mode it
  computes its deltas from the interpolant at the elapsed time after the increment. The
  two statements about history mode are for an evaluation time in the range of the
  interpolation object and for distinct sample times.
\<close>

theorem elapsed_time_ordering:
  "(fst (SingleNode_init fs g0 n rate path e) = Inr hs0 \<longrightarrow> model_time hs0 = 0)
   \<and> (fst (ClosedNode_init fs g0 m rate path e) = Inr hc0 \<longrightarrow> model_time hc0 = 0)
   \<and> model_time (fst (snd (SingleNode_run_one_step hs g dt)))
       = (if fst (SingleNode_run_one_step hs g dt) = None then model_time hs + dt
          else model_time hs)
   \<and> model_time (fst (snd (ClosedNode_run_one_step hc g dt))) = model_time hc + dt
   \<and> (outlet_elevation_obj hs = Some f \<and> is_node g (outlet_node hs)
        \<and> within_bounds f (model_time hs) \<and> distinct (map fst f)
       \<longrightarrow> (\<exists>v g'. interp1d_call f (model_time hs) = Inr v
               \<and> SingleNode_run_one_step hs g dt
                   = (None, hs\<lparr>model_time := model_time hs + dt\<rparr>, g')
               \<and> field_at g' topographic__elevation (outlet_node hs) = Some v))
   \<and> (outlet_elevation_obj hc = Some f' \<and> fits_grid g (nodes_to_lower hc)
        \<and> within_bounds f' (model_time hc + dt)
        \<and> field_at g topographic__elevation i = Some zi \<and> distinct (map fst f')
       \<longrightarrow> (\<exists>v g'. interp1d_call f' (model_time hc + dt) = Inr v
               \<and> ClosedNode_run_one_step hc g dt
                   = (None, hc\<lparr>model_time := model_time hc + dt\<rparr>, g')
               \<and> field_at g' topographic__elevation i
                   = Some (if nodes_to_lower hc ! i then zi - prefactor hc * (zi - v)
                           else zi)))"
proof -
  have single: "\<exists>v g'. interp1d_call f (model_time hs) = Inr v
               \<and> SingleNode_run_one_step hs g dt
                   = (None, hs\<lparr>model_time := model_time hs + dt\<rparr>, g')
               \<and> field_at g' topographic__elevation (outlet_node hs) = Some v"
    if "outlet_elevation_obj hs = Some f" "is_node g (outlet_node hs)"
       "within_bounds f (model_time hs)"
  proof -
    from that(3) obtain v where v: "interp1d_call f (model_time hs) = Inr v"
      using within_bounds_call by blast
    from SingleNode_history_step [OF that(1,2) v, of dt] v show ?thesis by blast
  qed
  have closed: "\<exists>v g'. interp1d_call f' (model_time hc + dt) = Inr v
               \<and> ClosedNode_run_one_step hc g dt
                   = (None, hc\<lparr>model_time := model_time hc + dt\<rparr>, g')
               \<and> field_at g' topographic__elevation i
                   = Some (if nodes_to_lower hc ! i then zi - prefactor hc * (zi - v)
                           else zi)"
    if "outlet_elevation_obj hc = Some f'" "fits_grid g (nodes_to_lower hc)"
       "within_bounds f' (model_time hc + dt)"
       "field_at g topographic__elevation i = Some zi"
  proof -
    from that(3) obtain v where v: "interp1d_call f' (model_time hc + dt) = Inr v"
      using within_bounds_call by blast
    from ClosedNode_history_step [OF that(1,2) v that(4)] v show ?thesis by blast
  qed
  show ?thesis
    using SingleNode_init_time [of fs g0 n rate path e hs0]
      ClosedNode_init_time [of fs g0 m rate path e hc0]
      SingleNode_step_time [of hs g dt] ClosedNode_step_time [of hc g dt]
      single closed
    by blast
qed

theorem elapsed_time_ordering_witness:
  "fst (SingleNode_init history_fs bedrock_grid 0 None (Some ''outlet_history.txt'') (Some (- 79)))
     = Inr \<lparr>model_time = 0, lowering_rate = None,
            outlet_elevation_obj = Some [(0, 1), (10, - 19), (20, - 79)], outlet_node = 0\<rparr>
   \<and> fst (ClosedNode_init history_fs bedrock_grid True None (Some ''outlet_history.txt'')
            (Some (- 79)))
     = Inr \<lparr>model_time = 0, lowering_rate = None,
            outlet_elevation_obj = Some [(0, 1), (10, - 19), (20, - 79)],
            modify_closed_nodes = True, nodes_to_lower = [True, False, False, True],
            prefactor = 1\<rparr>
   \<and> (\<exists>g'. SingleNode_run_one_step
              \<lparr>model_time = 0, lowering_rate = None,
               outlet_elevation_obj = Some [(0, 1), (10, - 19), (20, - 79)], outlet_node = 0\<rparr>
              bedrock_grid 10
            = (None,
               \<lparr>model_time = 10, lowering_rate = None,
                outlet_elevation_obj = Some [(0, 1), (10, - 19), (20, - 79)],
                outlet_node = 0\<rparr>, g')
          \<and> field_at g' topographic__elevation 0 = Some 1)
   \<and> (\<exists>g'. ClosedNode_run_one_step
              \<lparr>model_time = 0, lowering_rate = None,
               outlet_elevation_obj = Some [(0, 1), (10, - 19), (20, - 79)],
               modify_closed_nodes = True, nodes_to_lower = [True, False, False, True],
               prefactor = 1\<rparr>
              bedrock_grid 10
            = (None,
               \<lparr>model_time = 10, lowering_rate = None,
                outlet_elevation_obj = Some [(0, 1), (10, - 19), (20, - 79)],
                modify_closed_nodes = True, nodes_to_lower = [True, False, False, True],
                prefactor = 1\<rparr>, g')
          \<and> field_at g' topographic__elevation 0 = Some (- 19))"
proof -
  let ?f = "[(0, 1), (10, - 19), (20, - 79)] :: interp1d"
  let ?hs = "\<lparr>model_time = 0, lowering_rate = None, outlet_elevation_obj = Some ?f,
              outlet_node = 0\<rparr>"
  let ?hc = "\<lparr>model_time = 0, lowering_rate = None, outlet_elevation_obj = Some ?f,
              modify_closed_nodes = True, nodes_to_lower = [True, False, False, True],
              prefactor = 1\<rparr>"
  have si: "fst (SingleNode_init history_fs bedrock_grid 0 None (Some ''outlet_history.txt'')
                   (Some (- 79))) = Inr ?hs"
    by (simp add: SingleNode_init_def history_fs_def history_rows_def loadtxt_def
          bedrock_grid_def interp1d_init_def)
  have ci: "fst (ClosedNode_init history_fs bedrock_grid True None (Some ''outlet_history.txt'')
                   (Some (- 79))) = Inr ?hc"
    by (simp add: ClosedNode_init_def history_fs_def history_rows_def loadtxt_def
          bedrock_grid_def interp1d_init_def boolean_index_def mean_def)
  have hyps: "outlet_elevation_obj ?hs = Some ?f" "is_node bedrock_grid (outlet_node ?hs)"
    "within_bounds ?f (model_time ?hs)"
    "outlet_elevation_obj ?hc = Some ?f" "fits_grid bedrock_grid (nodes_to_lower ?hc)"
    "within_bounds ?f (model_time ?hc + 10)"
    "field_at bedrock_grid topographic__elevation 0 = Some 1"
    "distinct (map fst ?f)"
    by (simp_all add: is_node_def fits_grid_def within_bounds_def field_at_def bedrock_grid_def)
  have calls: "interp1d_call ?f 0 = Inr 1" "interp1d_call ?f 10 = Inr (- 19)"
    by (simp_all add: interp1d_call_def searchsorted_def)
  from elapsed_time_ordering
         [where fs = history_fs and ?g0.0 = bedrock_grid and n = 0 and rate = None
            and path = "Some ''outlet_history.txt''" and e = "Some (- 79)" and m = True
            and ?hs0.0 = ?hs and ?hc0.0 = ?hc
            and hs = ?hs and hc = ?hc and g = bedrock_grid and dt = 10
            and f = ?f and f' = ?f and i = 0 and zi = 1]
  have "(\<exists>v g'. interp1d_call ?f (model_time ?hs) = Inr v
               \<and> SingleNode_run_one_step ?hs bedrock_grid 10
                   = (None, ?hs\<lparr>model_time := model_time ?hs + 10\<rparr>, g')
               \<and> field_at g' topographic__elevation (outlet_node ?hs) = Some v)"
    and "(\<exists>v g'. interp1d_call ?f (model_time ?hc + 10) = Inr v
               \<and> ClosedNode_run_one_step ?hc bedrock_grid 10
                   = (None, ?hc\<lparr>model_time := model_time ?hc + 10\<rparr>, g')
               \<and> field_at g' topographic__elevation 0
                   = Some (if nodes_to_lower ?hc ! 0 then 1 - prefactor ?hc * (1 - v)
                           else 1))"
    using hyps by blast+
  then show ?thesis
    using si ci calls by auto
qed

end
